theory Spec2Isabelle
  imports Main "HOL-Library.AList"
begin

section \<open>Python values, dictionaries and the object store\<close>

text \<open>
  The sensor platform of the DWD weather warnings integration
  (\<^verbatim>\<open>homeassistant/components/dwd_weather_warnings/sensor.py\<close>) reads attributes of an
  API object and builds dictionaries from them. Python values are modelled by a small
  datatype; a dictionary that the code shares or copies is an object in a store, and a
  value refers to it by its address.
\<close>

type_synonym addr = nat

datatype pyval = PNone | PBool bool | PInt int | PStr string | PRef addr

text \<open>
  A dictionary keeps its items in insertion order. Assigning to a key that is present
  replaces the value in place, assigning to a new key appends the item: this is
  \<^const>\<open>AList.update\<close>. Reading a key that is absent raises \<^verbatim>\<open>KeyError\<close>.
\<close>

type_synonym pydict = "(string \<times> pyval) list"

datatype error = KeyError string

definition getitem :: "pydict \<Rightarrow> string \<Rightarrow> error + pyval" where
  "getitem d k = (case map_of d k of None \<Rightarrow> Inl (KeyError k) | Some v \<Rightarrow> Inr v)"

definition setitem :: "pydict \<Rightarrow> string \<Rightarrow> pyval \<Rightarrow> pydict" where
  "setitem d k v = AList.update k v d"

text \<open>
  A dictionary display \<^verbatim>\<open>{k1: v1, k2: v2, ...}\<close> stores its items from left to right, so
  a key that is written twice keeps its last value.
\<close>

definition dict_literal :: "(string \<times> pyval) list \<Rightarrow> pydict" where
  "dict_literal items = foldl (\<lambda>d (k, v). setitem d k v) [] items"

text \<open>
  The store of dictionary objects: every address below \<open>next_free\<close> holds an allocated
  dictionary. \<open>dict_copy\<close> is \<^verbatim>\<open>dict.copy()\<close>: a new object with the same items.
  \<open>store_setitem\<close> is an item assignment through a reference.
\<close>

record store =
  cells :: "addr \<Rightarrow> pydict"
  next_free :: addr

definition dict_copy :: "addr \<Rightarrow> store \<Rightarrow> addr \<times> store" where
  "dict_copy a h =
     (next_free h, h\<lparr>cells := (cells h)(next_free h := cells h a), next_free := Suc (next_free h)\<rparr>)"

definition store_setitem :: "addr \<Rightarrow> string \<Rightarrow> pyval \<Rightarrow> store \<Rightarrow> store" where
  "store_setitem a k v h = h\<lparr>cells := (cells h)(a := setitem (cells h a) k v)\<rparr>"

section \<open>Formatted strings\<close>

text \<open>
  \<open>str_nat\<close> is the decimal text that an f-string produces for a non-negative integer;
  \<open>str_opt\<close> is the text it produces for a value that is a string or \<^verbatim>\<open>None\<close>.
\<close>

definition digit_char :: "nat \<Rightarrow> char" where
  "digit_char n = char_of (48 + n)"

fun str_nat :: "nat \<Rightarrow> string" where
  "str_nat n = (if n < 10 then [digit_char n] else str_nat (n div 10) @ [digit_char (n mod 10)])"

declare str_nat.simps [simp del]

definition str_opt :: "string option \<Rightarrow> string" where
  "str_opt u = (case u of None \<Rightarrow> ''None'' | Some s \<Rightarrow> s)"

section \<open>Names imported by the module\<close>

text \<open>
  The module imports its constants from \<^verbatim>\<open>const.py\<close> and from the framework, which
  are not among the sources. They are parameters: every definition that uses one takes
  this record, and a theorem that depends on the value of one says so.
\<close>

record imported =
  CURRENT_WARNING_SENSOR :: string
  ADVANCE_WARNING_SENSOR :: string
  ATTR_REGION_NAME :: string
  ATTR_REGION_ID :: string
  ATTR_LAST_UPDATE :: string
  ATTR_WARNING_COUNT :: string
  DOMAIN :: string
  DEFAULT_NAME :: string
  HOMEASSISTANT_DOMAIN :: string
  SOURCE_IMPORT :: string
  API_ATTR_WARNING_NAME :: string
  API_ATTR_WARNING_TYPE :: string
  API_ATTR_WARNING_LEVEL :: string
  API_ATTR_WARNING_HEADLINE :: string
  API_ATTR_WARNING_DESCRIPTION :: string
  API_ATTR_WARNING_INSTRUCTION :: string
  API_ATTR_WARNING_START :: string
  API_ATTR_WARNING_END :: string
  API_ATTR_WARNING_PARAMETERS :: string
  API_ATTR_WARNING_COLOR :: string

section \<open>Entities and the objects they read\<close>

record SensorEntityDescription =
  key :: string
  name :: string
  icon :: string

definition SENSOR_TYPES :: "imported \<Rightarrow> SensorEntityDescription list" where
  "SENSOR_TYPES im =
     [\<lparr>key = CURRENT_WARNING_SENSOR im, name = ''Current Warning Level'',
       icon = ''mdi:close-octagon-outline''\<rparr>,
      \<lparr>key = ADVANCE_WARNING_SENSOR im, name = ''Advance Warning Level'',
       icon = ''mdi:close-octagon-outline''\<rparr>]"

record ConfigEntry =
  entry_id :: string
  title :: string
  unique_id :: "string option"

record DeviceInfo =
  identifiers :: "(string \<times> string) list"
  device_name :: string

text \<open>
  The API object, with the attributes the sensor reads. The two warning lists hold
  references to the warning dictionaries. The coordinator refers to its API object
  by an object identity, and so does the sensor after
  \<^verbatim>\<open>self.api = coordinator.api\<close>.
\<close>

type_synonym ref = nat

record DwdWeatherWarningsAPI =
  data_valid :: bool
  warncell_name :: pyval
  warncell_id :: pyval
  last_update :: pyval
  current_warning_level :: pyval
  current_warnings :: "addr list"
  expected_warning_level :: pyval
  expected_warnings :: "addr list"

record DwdWeatherWarningsCoordinator =
  api :: ref

record DwdWeatherWarningsSensor =
  entity_description :: SensorEntityDescription
  attr_name :: string
  attr_unique_id :: string
  attr_device_info :: DeviceInfo
  coordinator :: ref
  sensor_api :: ref

record world =
  coordinators :: "ref \<Rightarrow> DwdWeatherWarningsCoordinator"
  apis :: "ref \<Rightarrow> DwdWeatherWarningsAPI"
  dicts :: store

text \<open>The constructor \<^verbatim>\<open>DwdWeatherWarningsSensor.__init__\<close>.\<close>

definition init_sensor ::
  "imported \<Rightarrow> world \<Rightarrow> ref \<Rightarrow> ConfigEntry \<Rightarrow> SensorEntityDescription \<Rightarrow> DwdWeatherWarningsSensor"
where
  "init_sensor im w c entry description =
     \<lparr>entity_description = description,
      attr_name = DEFAULT_NAME im @ '' '' @ title entry @ '' '' @ name description,
      attr_unique_id = str_opt (unique_id entry) @ ''-'' @ key description,
      attr_device_info =
        \<lparr>identifiers = [(DOMAIN im, entry_id entry)],
         device_name = DEFAULT_NAME im @ '' '' @ title entry\<rparr>,
      coordinator = c,
      sensor_api = api (coordinators w c)\<rparr>"

section \<open>The sensor's properties\<close>

text \<open>
  Each property takes the sensor and the world it is evaluated in, and returns its
  result together with the world afterwards.
\<close>

definition native_value :: "imported \<Rightarrow> DwdWeatherWarningsSensor \<Rightarrow> world \<Rightarrow> pyval \<times> world" where
  "native_value im self w =
     (if key (entity_description self) = CURRENT_WARNING_SENSOR im
      then (current_warning_level (apis w (sensor_api self)), w)
      else (expected_warning_level (apis w (sensor_api self)), w))"

definition available :: "DwdWeatherWarningsSensor \<Rightarrow> world \<Rightarrow> bool \<times> world" where
  "available self w = (data_valid (apis w (sensor_api self)), w)"

text \<open>
  The keys that the f-strings \<^verbatim>\<open>f"warning_{i}_name"\<close>, ..., \<^verbatim>\<open>f"warning_{i}_color"\<close>
  and \<^verbatim>\<open>f"warning_{i}"\<close> produce.
\<close>

definition warning_attr :: "nat \<Rightarrow> string \<Rightarrow> string" where
  "warning_attr i field = ''warning_'' @ str_nat i @ ''_'' @ field"

definition warning_whole :: "nat \<Rightarrow> string" where
  "warning_whole i = ''warning_'' @ str_nat i"

text \<open>
  Sequencing of statements that may raise, and the statement
  \<^verbatim>\<open>data[dst] = warning[src]\<close>: the right-hand side is read first.
\<close>

definition then_do :: "error + 'a \<Rightarrow> ('a \<Rightarrow> error + 'b) \<Rightarrow> error + 'b" where
  "then_do m f = (case m of Inl e \<Rightarrow> Inl e | Inr x \<Rightarrow> f x)"

definition copy_item :: "pydict \<Rightarrow> string \<Rightarrow> pydict \<Rightarrow> string \<Rightarrow> error + pydict" where
  "copy_item data dst warning src =
     (case getitem warning src of Inl e \<Rightarrow> Inl e | Inr v \<Rightarrow> Inr (setitem data dst v))"

text \<open>The first ten statements of the loop body of \<open>extra_state_attributes\<close>.\<close>

definition flat_fields :: "imported \<Rightarrow> nat \<Rightarrow> pydict \<Rightarrow> pydict \<Rightarrow> error + pydict" where
  "flat_fields im i warning data =
     then_do (copy_item data (warning_attr i ''name'') warning (API_ATTR_WARNING_NAME im)) (\<lambda>data.
     then_do (copy_item data (warning_attr i ''type'') warning (API_ATTR_WARNING_TYPE im)) (\<lambda>data.
     then_do (copy_item data (warning_attr i ''level'') warning (API_ATTR_WARNING_LEVEL im)) (\<lambda>data.
     then_do (copy_item data (warning_attr i ''headline'') warning (API_ATTR_WARNING_HEADLINE im)) (\<lambda>data.
     then_do (copy_item data (warning_attr i ''description'') warning (API_ATTR_WARNING_DESCRIPTION im)) (\<lambda>data.
     then_do (copy_item data (warning_attr i ''instruction'') warning (API_ATTR_WARNING_INSTRUCTION im)) (\<lambda>data.
     then_do (copy_item data (warning_attr i ''start'') warning (API_ATTR_WARNING_START im)) (\<lambda>data.
     then_do (copy_item data (warning_attr i ''end'') warning (API_ATTR_WARNING_END im)) (\<lambda>data.
     then_do (copy_item data (warning_attr i ''parameters'') warning (API_ATTR_WARNING_PARAMETERS im)) (\<lambda>data.
     copy_item data (warning_attr i ''color'') warning (API_ATTR_WARNING_COLOR im))))))))))"

text \<open>
  One iteration of the loop, for the warning at address \<open>a\<close> with number \<open>i\<close>: the ten
  flat attributes, then the copy of the warning, the two assignments to the copy, and
  the attribute that refers to the copy. An exception leaves the loop with the store
  as it is at that point.
\<close>

definition loop_body ::
  "imported \<Rightarrow> nat \<Rightarrow> addr \<Rightarrow> pydict \<Rightarrow> store \<Rightarrow> (error + pydict) \<times> store"
where
  "loop_body im i a data h =
     (case flat_fields im i (cells h a) data of
        Inl e \<Rightarrow> (Inl e, h)
      | Inr data \<Rightarrow>
          (case dict_copy a h of (warning_copy, h) \<Rightarrow>
           (case getitem data (warning_attr i ''start'') of
              Inl e \<Rightarrow> (Inl e, h)
            | Inr v \<Rightarrow>
                (case store_setitem warning_copy (API_ATTR_WARNING_START im) v h of h \<Rightarrow>
                 (case getitem data (warning_attr i ''end'') of
                    Inl e \<Rightarrow> (Inl e, h)
                  | Inr v \<Rightarrow>
                      (case store_setitem warning_copy (API_ATTR_WARNING_END im) v h of h \<Rightarrow>
                       (Inr (setitem data (warning_whole i) (PRef warning_copy)), h)))))))"

text \<open>
  The loop \<^verbatim>\<open>for i, warning in enumerate(searched_warnings, 1)\<close>, from number \<open>i\<close> on.
\<close>

fun warning_loop ::
  "imported \<Rightarrow> nat \<Rightarrow> addr list \<Rightarrow> pydict \<Rightarrow> store \<Rightarrow> (error + pydict) \<times> store"
where
  "warning_loop im i [] data h = (Inr data, h)"
| "warning_loop im i (a # as) data h =
     (case loop_body im i a data h of
        (Inl e, h') \<Rightarrow> (Inl e, h')
      | (Inr data', h') \<Rightarrow> warning_loop im (Suc i) as data' h')"

text \<open>The list that \<open>extra_state_attributes\<close> selects for a sensor.\<close>

definition searched_warnings :: "imported \<Rightarrow> DwdWeatherWarningsSensor \<Rightarrow> world \<Rightarrow> addr list" where
  "searched_warnings im self w =
     (if key (entity_description self) = CURRENT_WARNING_SENSOR im
      then current_warnings (apis w (sensor_api self))
      else expected_warnings (apis w (sensor_api self)))"

definition extra_state_attributes ::
  "imported \<Rightarrow> DwdWeatherWarningsSensor \<Rightarrow> world \<Rightarrow> (error + pydict) \<times> world"
where
  "extra_state_attributes im self w =
     (let data = dict_literal
                   [(ATTR_REGION_NAME im, warncell_name (apis w (sensor_api self))),
                    (ATTR_REGION_ID im, warncell_id (apis w (sensor_api self))),
                    (ATTR_LAST_UPDATE im, last_update (apis w (sensor_api self)))];
          data = setitem data (ATTR_WARNING_COUNT im)
                   (PInt (int (length (searched_warnings im self w))))
      in case warning_loop im 1 (searched_warnings im self w) data (dicts w) of
           (r, h) \<Rightarrow> (r, w\<lparr>dicts := h\<rparr>))"

section \<open>Setting up the platform\<close>

text \<open>
  The setup functions act through the framework: they register an issue, start a
  config flow as a task, and hand entities to the callback they are given. The model
  records these calls, in order, with their arguments. Of the severity levels only the
  one this module uses is listed.
\<close>

datatype IssueSeverity = WARNING

record issue =
  issue_domain_arg :: string
  issue_id :: string
  breaks_in_ha_version :: string
  is_fixable :: bool
  issue_domain :: string
  severity :: IssueSeverity
  translation_key :: string
  translation_placeholders :: "(string \<times> string) list"

datatype 'cfg call =
    Async_create_issue issue
  | Async_create_task_flow_init string "(string \<times> string) list" 'cfg
  | Async_add_entities "DwdWeatherWarningsSensor list" bool

record HomeAssistant =
  hass_data :: "string \<rightharpoonup> (string \<rightharpoonup> ref)"

definition async_setup_platform ::
  "imported \<Rightarrow> HomeAssistant \<Rightarrow> 'cfg \<Rightarrow> 'cb \<Rightarrow> 'd option \<Rightarrow> 'cfg call list"
where
  "async_setup_platform im hass config add_entities discovery_info =
     [Async_create_issue
        \<lparr>issue_domain_arg = HOMEASSISTANT_DOMAIN im,
         issue_id = ''deprecated_yaml_'' @ DOMAIN im,
         breaks_in_ha_version = ''2023.12.0'',
         is_fixable = False,
         issue_domain = DOMAIN im,
         severity = WARNING,
         translation_key = ''deprecated_yaml'',
         translation_placeholders =
           [(''domain'', DOMAIN im),
            (''integration_title'', ''Deutscher Wetterdienst (DWD) Weather Warnings'')]\<rparr>,
      Async_create_task_flow_init (DOMAIN im) [(''source'', SOURCE_IMPORT im)] config]"

definition async_setup_entry ::
  "imported \<Rightarrow> world \<Rightarrow> HomeAssistant \<Rightarrow> ConfigEntry \<Rightarrow> error + 'cfg call list"
where
  "async_setup_entry im w hass entry =
     (case hass_data hass (DOMAIN im) of
        None \<Rightarrow> Inl (KeyError (DOMAIN im))
      | Some by_entry \<Rightarrow>
          (case by_entry (entry_id entry) of
             None \<Rightarrow> Inl (KeyError (entry_id entry))
           | Some c \<Rightarrow>
               Inr [Async_add_entities
                      (map (\<lambda>description. init_sensor im w c entry description) (SENSOR_TYPES im))
                      True]))"

section \<open>Definitions for the statements and proofs\<close>

text \<open>
  Decimal digits and the number a decimal text denotes; the table of the ten pairs
  (attribute suffix, API key) that the loop body copies, in the order of its
  statements; the loop over such a table; the keys one iteration writes; a warning
  that has the ten API keys; and a list of references that are all allocated.
\<close>

definition is_digit :: "char \<Rightarrow> bool" where
  "is_digit c = (48 \<le> (of_char c :: nat) \<and> (of_char c :: nat) \<le> 57)"

definition digit_val :: "char \<Rightarrow> nat" where
  "digit_val c = of_char c - 48"

definition nat_of_str :: "string \<Rightarrow> nat" where
  "nat_of_str s = foldl (\<lambda>acc c. 10 * acc + digit_val c) 0 s"

definition field_table :: "imported \<Rightarrow> (string \<times> string) list" where
  "field_table im =
     [(''name'', API_ATTR_WARNING_NAME im), (''type'', API_ATTR_WARNING_TYPE im),
      (''level'', API_ATTR_WARNING_LEVEL im), (''headline'', API_ATTR_WARNING_HEADLINE im),
      (''description'', API_ATTR_WARNING_DESCRIPTION im),
      (''instruction'', API_ATTR_WARNING_INSTRUCTION im),
      (''start'', API_ATTR_WARNING_START im), (''end'', API_ATTR_WARNING_END im),
      (''parameters'', API_ATTR_WARNING_PARAMETERS im), (''color'', API_ATTR_WARNING_COLOR im)]"

definition has_fields :: "imported \<Rightarrow> pydict \<Rightarrow> bool" where
  "has_fields im warning = list_all (\<lambda>src. map_of warning src \<noteq> None) (map snd (field_table im))"

fun copy_items :: "nat \<Rightarrow> pydict \<Rightarrow> (string \<times> string) list \<Rightarrow> pydict \<Rightarrow> error + pydict" where
  "copy_items i warning [] data = Inr data"
| "copy_items i warning ((f, src) # fs) data =
     then_do (copy_item data (warning_attr i f) warning src) (copy_items i warning fs)"

definition iter_keys :: "imported \<Rightarrow> nat \<Rightarrow> string list" where
  "iter_keys im i = warning_whole i # map (\<lambda>p. warning_attr i (fst p)) (field_table im)"

definition allocated :: "store \<Rightarrow> addr list \<Rightarrow> bool" where
  "allocated h ws = list_all (\<lambda>a. a < next_free h) ws"

text \<open>
  The dictionary \<open>extra_state_attributes\<close> holds before its loop; the statement that a
  result \<open>d\<close> carries the ten flat attributes of warning number \<open>i\<close>, each present
  and equal to the warning's item under the API key; and the equality of two attribute
  values read in two stores: the same value, or references to dictionaries with the same
  items.
\<close>

definition base_data :: "imported \<Rightarrow> DwdWeatherWarningsSensor \<Rightarrow> world \<Rightarrow> pydict" where
  "base_data im self w =
     setitem
       (dict_literal
          [(ATTR_REGION_NAME im, warncell_name (apis w (sensor_api self))),
           (ATTR_REGION_ID im, warncell_id (apis w (sensor_api self))),
           (ATTR_LAST_UPDATE im, last_update (apis w (sensor_api self)))])
       (ATTR_WARNING_COUNT im) (PInt (int (length (searched_warnings im self w))))"

definition flattened :: "imported \<Rightarrow> pydict \<Rightarrow> nat \<Rightarrow> pydict \<Rightarrow> bool" where
  "flattened im d i warning =
     list_all (\<lambda>(f, src). map_of d (warning_attr i f) \<noteq> None \<and>
                           map_of d (warning_attr i f) = map_of warning src)
       (field_table im)"



text \<open>
  The loop body as the specification describes its last part: the attribute
  \<^verbatim>\<open>warning_i\<close> is a copy of the warning, with no assignment to the copy.
\<close>

definition loop_body_copy_only ::
  "imported \<Rightarrow> nat \<Rightarrow> addr \<Rightarrow> pydict \<Rightarrow> store \<Rightarrow> (error + pydict) \<times> store"
where
  "loop_body_copy_only im i a data h =
     (case flat_fields im i (cells h a) data of
        Inl e \<Rightarrow> (Inl e, h)
      | Inr data \<Rightarrow>
          (case dict_copy a h of (warning_copy, h) \<Rightarrow>
             (Inr (setitem data (warning_whole i) (PRef warning_copy)), h)))"

section \<open>A concrete world\<close>

text \<open>
  A region with two current warnings and one expected warning, used to evaluate the
  definitions. The imported names have the values of the integration.
\<close>

definition example_imported :: imported where
  "example_imported =
     \<lparr>CURRENT_WARNING_SENSOR = ''current_warning_level'',
      ADVANCE_WARNING_SENSOR = ''advance_warning_level'',
      ATTR_REGION_NAME = ''region_name'',
      ATTR_REGION_ID = ''region_id'',
      ATTR_LAST_UPDATE = ''last_update'',
      ATTR_WARNING_COUNT = ''warning_count'',
      DOMAIN = ''dwd_weather_warnings'',
      DEFAULT_NAME = ''DWD Weather Warnings'',
      HOMEASSISTANT_DOMAIN = ''homeassistant'',
      SOURCE_IMPORT = ''import'',
      API_ATTR_WARNING_NAME = ''event'',
      API_ATTR_WARNING_TYPE = ''event_code'',
      API_ATTR_WARNING_LEVEL = ''level'',
      API_ATTR_WARNING_HEADLINE = ''headline'',
      API_ATTR_WARNING_DESCRIPTION = ''description'',
      API_ATTR_WARNING_INSTRUCTION = ''instruction'',
      API_ATTR_WARNING_START = ''start_time'',
      API_ATTR_WARNING_END = ''end_time'',
      API_ATTR_WARNING_PARAMETERS = ''parameters'',
      API_ATTR_WARNING_COLOR = ''color''\<rparr>"

definition example_warning :: "string \<Rightarrow> int \<Rightarrow> int \<Rightarrow> pydict" where
  "example_warning event code lvl =
     [(''start_time'', PInt 1000), (''end_time'', PInt 2000), (''event'', PStr event),
      (''event_code'', PInt code), (''headline'', PStr ''Amtliche Warnung''),
      (''description'', PStr ''text''), (''instruction'', PNone),
      (''urgency'', PStr ''immediate''), (''level'', PInt lvl), (''parameters'', PNone),
      (''color'', PStr ''#ffeb3b'')]"

definition example_store :: store where
  "example_store =
     \<lparr>cells = (\<lambda>a. if a = 0 then example_warning ''FROST'' 22 1
                   else if a = 1 then example_warning ''STURM'' 52 2
                   else if a = 2 then example_warning ''GLATTEIS'' 84 1
                   else []),
      next_free = 3\<rparr>"

definition example_api :: DwdWeatherWarningsAPI where
  "example_api =
     \<lparr>data_valid = True, warncell_name = PStr ''Stadt Berlin'', warncell_id = PInt 111000000,
      last_update = PInt 1500, current_warning_level = PInt 2, current_warnings = [0, 1],
      expected_warning_level = PInt 1, expected_warnings = [2]\<rparr>"

definition example_world :: world where
  "example_world =
     \<lparr>coordinators = (\<lambda>c. \<lparr>api = 0\<rparr>), apis = (\<lambda>r. example_api), dicts = example_store\<rparr>"

definition example_entry :: ConfigEntry where
  "example_entry = \<lparr>entry_id = ''abc'', title = ''Berlin'', unique_id = Some ''111000000''\<rparr>"

definition example_current :: DwdWeatherWarningsSensor where
  "example_current = init_sensor example_imported example_world 0 example_entry (SENSOR_TYPES example_imported ! 0)"

definition example_advance :: DwdWeatherWarningsSensor where
  "example_advance = init_sensor example_imported example_world 0 example_entry (SENSOR_TYPES example_imported ! 1)"

text \<open>A world in which the region has no current warning.\<close>

definition example_quiet :: world where
  "example_quiet =
     example_world\<lparr>apis := (\<lambda>r. example_api\<lparr>current_warning_level := PInt 0,
                                              current_warnings := []\<rparr>)\<rparr>"




text \<open>
  A framework state in which the coordinator of the example entry is registered, and the
  kinds of recorded calls.
\<close>

definition example_hass :: HomeAssistant where
  "example_hass = \<lparr>hass_data = [''dwd_weather_warnings'' \<mapsto> [''abc'' \<mapsto> 0]]\<rparr>"

fun is_flow_init :: "'cfg call \<Rightarrow> bool" where
  "is_flow_init (Async_create_task_flow_init domain context cfg) = True"
| "is_flow_init c = False"

fun is_add_entities :: "'cfg call \<Rightarrow> bool" where
  "is_add_entities (Async_add_entities entities update_before_add) = True"
| "is_add_entities c = False"

fun is_create_issue :: "'cfg call \<Rightarrow> bool" where
  "is_create_issue (Async_create_issue i) = True"
| "is_create_issue c = False"

section \<open>Properties of the formatted keys and of the loop\<close>

lemma of_char_digit_char: "n < 10 \<Longrightarrow> (of_char (digit_char n) :: nat) = 48 + n"
  by (simp add: digit_char_def)

lemma is_digit_digit_char: "n < 10 \<Longrightarrow> is_digit (digit_char n)"
  by (simp add: is_digit_def of_char_digit_char)

lemma digit_val_digit_char: "n < 10 \<Longrightarrow> digit_val (digit_char n) = n"
  by (simp add: digit_val_def of_char_digit_char)

lemma str_nat_digits: "c \<in> set (str_nat n) \<Longrightarrow> is_digit c"
proof (induction n arbitrary: c rule: str_nat.induct)
  case (1 n)
  show ?case
  proof (cases "n < 10")
    case True
    with "1.prems" show ?thesis
      by (simp add: str_nat.simps [of n] is_digit_digit_char)
  next
    case False
    with "1.prems" have "c \<in> set (str_nat (n div 10)) \<or> c = digit_char (n mod 10)"
      by (auto simp: str_nat.simps [of n])
    then show ?thesis
      using "1.IH" [OF False] by (auto simp: is_digit_digit_char)
  qed
qed

lemma str_nat_not_Nil: "str_nat n \<noteq> []"
  by (simp add: str_nat.simps [of n])

lemma nat_of_str_snoc: "nat_of_str (s @ [c]) = 10 * nat_of_str s + digit_val c"
  by (simp add: nat_of_str_def)

lemma nat_of_str_str_nat: "nat_of_str (str_nat n) = n"
proof (induction n rule: str_nat.induct)
  case (1 n)
  show ?case
  proof (cases "n < 10")
    case True
    then show ?thesis
      by (simp add: str_nat.simps [of n] nat_of_str_def digit_val_digit_char)
  next
    case False
    then show ?thesis
      using "1.IH" [OF False]
      by (simp add: str_nat.simps [of n] nat_of_str_snoc digit_val_digit_char)
  qed
qed

lemma str_nat_inject: "str_nat i = str_nat j \<longleftrightarrow> i = j"
  by (metis nat_of_str_str_nat)

lemma takeWhile_str_nat:
  "r = [] \<or> \<not> is_digit (hd r) \<Longrightarrow> takeWhile is_digit (str_nat n @ r) = str_nat n"
  by (cases r) (auto simp: takeWhile_append2 str_nat_digits takeWhile_eq_all_conv)

lemma str_nat_append_eq:
  assumes "str_nat i @ r = str_nat j @ s"
    and "r = [] \<or> \<not> is_digit (hd r)" and "s = [] \<or> \<not> is_digit (hd s)"
  shows "i = j \<and> r = s"
proof -
  have "takeWhile is_digit (str_nat i @ r) = takeWhile is_digit (str_nat j @ s)"
    using assms(1) by simp
  then have "str_nat i = str_nat j"
    using assms(2,3) by (simp add: takeWhile_str_nat)
  then show ?thesis using assms(1) by (simp add: str_nat_inject)
qed

lemma warning_attr_inject: "warning_attr i f = warning_attr j g \<longleftrightarrow> i = j \<and> f = g"
proof
  assume "warning_attr i f = warning_attr j g"
  then have "str_nat i @ (CHR ''_'' # f) = str_nat j @ (CHR ''_'' # g)"
    by (simp add: warning_attr_def)
  from str_nat_append_eq [OF this] show "i = j \<and> f = g"
    by (simp add: is_digit_def)
qed simp

lemma warning_whole_inject: "warning_whole i = warning_whole j \<longleftrightarrow> i = j"
  by (simp add: warning_whole_def str_nat_inject)

lemma warning_attr_neq_whole: "warning_attr i f \<noteq> warning_whole j"
proof
  assume "warning_attr i f = warning_whole j"
  then have "str_nat i @ (CHR ''_'' # f) = str_nat j @ []"
    by (simp add: warning_attr_def warning_whole_def)
  from str_nat_append_eq [OF this] show False
    by (simp add: is_digit_def)
qed

lemma hd_str_nat_digit: "is_digit (hd (str_nat n))"
  using str_nat_digits [of "hd (str_nat n)" n] str_nat_not_Nil [of n] by simp

lemma warning_key_shape:
  "\<exists>c r. warning_attr i f = ''warning_'' @ c # r \<and> is_digit c"
  "\<exists>c r. warning_whole i = ''warning_'' @ c # r \<and> is_digit c"
  using hd_str_nat_digit [of i] str_nat_not_Nil [of i]
  by (cases "str_nat i"; simp add: warning_attr_def warning_whole_def)+

lemma plain_key_neq:
  assumes "k \<in> {''region_name'', ''region_id'', ''last_update'', ''warning_count''}"
  shows "k \<noteq> warning_attr i f" "k \<noteq> warning_whole i"
  using assms warning_key_shape(1) [of i f] warning_key_shape(2) [of i]
  by (auto simp: is_digit_def)

lemma then_do_Inr [simp]: "then_do m Inr = m"
  by (simp add: then_do_def split: sum.splits)

lemma copy_items_fun:
  "copy_items i warning [] = Inr"
  "copy_items i warning ((f, src) # fs) =
     (\<lambda>data. then_do (copy_item data (warning_attr i f) warning src) (copy_items i warning fs))"
  by (rule ext, simp)+

lemma flat_fields_copy_items:
  "flat_fields im i warning data = copy_items i warning (field_table im) data"
  by (simp add: flat_fields_def field_table_def copy_items_fun)

lemma map_of_setitem: "map_of (setitem d k v) = (map_of d)(k \<mapsto> v)"
  by (simp add: setitem_def update_conv')

lemma copy_item_Inr:
  "copy_item data dst warning src = Inr d \<longleftrightarrow>
     (\<exists>v. map_of warning src = Some v \<and> d = setitem data dst v)"
  by (auto simp: copy_item_def getitem_def split: option.splits)

lemma copy_item_Inl:
  "copy_item data dst warning src = Inl e \<longleftrightarrow> map_of warning src = None \<and> e = KeyError src"
  by (auto simp: copy_item_def getitem_def split: option.splits)

lemma copy_items_total:
  "list_all (\<lambda>src. map_of warning src \<noteq> None) (map snd fs) \<Longrightarrow>
     \<exists>d. copy_items i warning fs data = Inr d"
proof (induction fs arbitrary: data)
  case Nil
  show ?case by simp
next
  case (Cons p fs)
  obtain f src where p: "p = (f, src)" by (cases p)
  from Cons.prems p obtain v where v: "map_of warning src = Some v" by auto
  from Cons.prems p have "list_all (\<lambda>src. map_of warning src \<noteq> None) (map snd fs)" by simp
  from Cons.IH [OF this] show ?case
    using v by (simp add: p then_do_def copy_item_def getitem_def)
qed

lemma copy_items_Inr_fields:
  "copy_items i warning fs data = Inr d \<Longrightarrow>
     list_all (\<lambda>src. map_of warning src \<noteq> None) (map snd fs)"
proof (induction fs arbitrary: data)
  case Nil
  show ?case by simp
next
  case (Cons p fs)
  obtain f src where p: "p = (f, src)" by (cases p)
  from Cons.prems obtain d1 where
    d1: "copy_item data (warning_attr i f) warning src = Inr d1" "copy_items i warning fs d1 = Inr d"
    by (auto simp: p then_do_def split: sum.splits)
  from d1(1) have "map_of warning src \<noteq> None" by (auto simp: copy_item_Inr)
  with Cons.IH [OF d1(2)] show ?case by (simp add: p)
qed

lemma copy_items_other:
  "copy_items i warning fs data = Inr d \<Longrightarrow> k \<notin> warning_attr i ` fst ` set fs \<Longrightarrow>
     map_of d k = map_of data k"
proof (induction fs arbitrary: data)
  case Nil
  then show ?case by simp
next
  case (Cons p fs)
  obtain f src where p: "p = (f, src)" by (cases p)
  from Cons.prems(1) obtain d1 where
    d1: "copy_item data (warning_attr i f) warning src = Inr d1" "copy_items i warning fs d1 = Inr d"
    by (auto simp: p then_do_def split: sum.splits)
  from Cons.prems(2) have k: "k \<noteq> warning_attr i f" "k \<notin> warning_attr i ` fst ` set fs"
    by (auto simp: p)
  from d1(1) k(1) have "map_of d1 k = map_of data k"
    by (auto simp: copy_item_Inr map_of_setitem)
  with Cons.IH [OF d1(2) k(2)] show ?case by simp
qed

lemma copy_items_written:
  "copy_items i warning fs data = Inr d \<Longrightarrow> distinct (map fst fs) \<Longrightarrow> (f, src) \<in> set fs \<Longrightarrow>
     map_of d (warning_attr i f) = map_of warning src"
proof (induction fs arbitrary: data)
  case Nil
  then show ?case by simp
next
  case (Cons p fs)
  obtain g s where p: "p = (g, s)" by (cases p)
  from Cons.prems(1) obtain d1 where
    d1: "copy_item data (warning_attr i g) warning s = Inr d1" "copy_items i warning fs d1 = Inr d"
    by (auto simp: p then_do_def split: sum.splits)
  from Cons.prems(2) have dist: "g \<notin> fst ` set fs" "distinct (map fst fs)"
    by (auto simp: p)
  show ?case
  proof (cases "(f, src) \<in> set fs")
    case True
    from Cons.IH [OF d1(2) dist(2) True] show ?thesis .
  next
    case False
    with Cons.prems(3) have eq: "f = g" "src = s" by (auto simp: p)
    have "warning_attr i g \<notin> warning_attr i ` fst ` set fs"
      using dist(1) by (force simp: warning_attr_inject)
    from copy_items_other [OF d1(2) this] have "map_of d (warning_attr i g) = map_of d1 (warning_attr i g)" .
    also from d1(1) have "\<dots> = map_of warning s"
      by (auto simp: copy_item_Inr map_of_setitem)
    finally show ?thesis by (simp add: eq)
  qed
qed


lemma distinct_field_table: "distinct (map fst (field_table im))"
  by (simp add: field_table_def)

lemma has_fields_iff:
  "has_fields im warning \<longleftrightarrow> (\<exists>d. flat_fields im i warning data = Inr d)"
  unfolding has_fields_def flat_fields_copy_items
  using copy_items_total copy_items_Inr_fields by blast

lemma flat_fields_other:
  "flat_fields im i warning data = Inr d \<Longrightarrow> k \<notin> set (iter_keys im i) \<Longrightarrow>
     map_of d k = map_of data k"
  unfolding flat_fields_copy_items
  by (erule copy_items_other) (auto simp: iter_keys_def)

lemma flat_fields_written:
  "flat_fields im i warning data = Inr d \<Longrightarrow> (f, src) \<in> set (field_table im) \<Longrightarrow>
     \<exists>v. map_of d (warning_attr i f) = Some v \<and> map_of warning src = Some v"
proof -
  assume a: "flat_fields im i warning data = Inr d" "(f, src) \<in> set (field_table im)"
  from a(1) have "list_all (\<lambda>src. map_of warning src \<noteq> None) (map snd (field_table im))"
    unfolding flat_fields_copy_items by (rule copy_items_Inr_fields)
  with a(2) have "map_of warning src \<noteq> None"
    by (force simp: list_all_iff)
  moreover from a have "map_of d (warning_attr i f) = map_of warning src"
    unfolding flat_fields_copy_items
    by (rule copy_items_written [OF _ distinct_field_table])
  ultimately show ?thesis by auto
qed

lemma loop_body_Inl:
  "flat_fields im i (cells h a) data = Inl e \<Longrightarrow> loop_body im i a data h = (Inl e, h)"
  by (simp add: loop_body_def)

lemma loop_body_Inr:
  assumes "flat_fields im i (cells h a) data = Inr d0"
  shows "loop_body im i a data h =
           (Inr (setitem d0 (warning_whole i) (PRef (next_free h))), snd (dict_copy a h))"
proof -
  from flat_fields_written [OF assms, of "''start''" "API_ATTR_WARNING_START im"]
  obtain v1 where v1: "map_of d0 (warning_attr i ''start'') = Some v1"
    "map_of (cells h a) (API_ATTR_WARNING_START im) = Some v1"
    by (auto simp: field_table_def)
  from flat_fields_written [OF assms, of "''end''" "API_ATTR_WARNING_END im"]
  obtain v2 where v2: "map_of d0 (warning_attr i ''end'') = Some v2"
    "map_of (cells h a) (API_ATTR_WARNING_END im) = Some v2"
    by (auto simp: field_table_def)
  have s1: "setitem (cells h a) (API_ATTR_WARNING_START im) v1 = cells h a"
    using v1(2) by (simp add: setitem_def update_triv)
  have s2: "setitem (cells h a) (API_ATTR_WARNING_END im) v2 = cells h a"
    using v2(2) by (simp add: setitem_def update_triv)
  show ?thesis
    using assms v1(1) v2(1)
    by (simp add: loop_body_def dict_copy_def store_setitem_def getitem_def s1 s2)
qed

lemma dict_copy_simps:
  "next_free (snd (dict_copy a h)) = Suc (next_free h)"
  "cells (snd (dict_copy a h)) b = (if b = next_free h then cells h a else cells h b)"
  by (simp_all add: dict_copy_def)

lemma warning_loop_Cons_Inr:
  assumes "warning_loop im i (a # as) data h = (Inr d, h')"
  obtains d0 where "flat_fields im i (cells h a) data = Inr d0"
    "warning_loop im (Suc i) as (setitem d0 (warning_whole i) (PRef (next_free h)))
       (snd (dict_copy a h)) = (Inr d, h')"
proof (cases "flat_fields im i (cells h a) data")
  case (Inl e)
  with assms show ?thesis by (simp add: loop_body_Inl)
next
  case (Inr d0)
  with assms that show ?thesis by (simp add: loop_body_Inr)
qed

lemma warning_loop_frame:
  "warning_loop im i ws data h = (r, h') \<Longrightarrow>
     next_free h \<le> next_free h' \<and> (\<forall>a < next_free h. cells h' a = cells h a)"
proof (induction ws arbitrary: i data h)
  case Nil
  then show ?case by simp
next
  case (Cons a as)
  show ?case
  proof (cases "flat_fields im i (cells h a) data")
    case (Inl e)
    with Cons.prems show ?thesis by (simp add: loop_body_Inl)
  next
    case (Inr d0)
    with Cons.prems have
      "warning_loop im (Suc i) as (setitem d0 (warning_whole i) (PRef (next_free h)))
         (snd (dict_copy a h)) = (r, h')"
      by (simp add: loop_body_Inr)
    from Cons.IH [OF this] show ?thesis
      by (auto simp: dict_copy_simps)
  qed
qed

lemma warning_loop_next_free:
  "warning_loop im i ws data h = (Inr d, h') \<Longrightarrow> next_free h' = next_free h + length ws"
proof (induction ws arbitrary: i data h)
  case Nil
  then show ?case by simp
next
  case (Cons a as)
  from Cons.prems obtain d0 where
    "warning_loop im (Suc i) as (setitem d0 (warning_whole i) (PRef (next_free h)))
       (snd (dict_copy a h)) = (Inr d, h')"
    by (rule warning_loop_Cons_Inr)
  from Cons.IH [OF this] show ?case by (simp add: dict_copy_simps)
qed

lemma iter_keys_disjoint: "i \<noteq> j \<Longrightarrow> k \<in> set (iter_keys im i) \<Longrightarrow> k \<notin> set (iter_keys im j)"
  by (auto simp: iter_keys_def warning_whole_inject warning_attr_inject warning_attr_neq_whole
      warning_attr_neq_whole [symmetric])

lemma warning_loop_other:
  "warning_loop im i ws data h = (Inr d, h') \<Longrightarrow>
     \<forall>j < length ws. k \<notin> set (iter_keys im (i + j)) \<Longrightarrow> map_of d k = map_of data k"
proof (induction ws arbitrary: i data h)
  case Nil
  then show ?case by simp
next
  case (Cons a as)
  from Cons.prems(1) obtain d0 where d0: "flat_fields im i (cells h a) data = Inr d0"
    "warning_loop im (Suc i) as (setitem d0 (warning_whole i) (PRef (next_free h)))
       (snd (dict_copy a h)) = (Inr d, h')"
    by (rule warning_loop_Cons_Inr)
  from Cons.prems(2) have k0: "k \<notin> set (iter_keys im i)" by force
  have "\<forall>j < length as. k \<notin> set (iter_keys im (Suc i + j))"
  proof (intro allI impI)
    fix j assume "j < length as"
    then have "Suc j < length (a # as)" by simp
    with Cons.prems(2) have "k \<notin> set (iter_keys im (i + Suc j))" by blast
    then show "k \<notin> set (iter_keys im (Suc i + j))" by simp
  qed
  from Cons.IH [OF d0(2) this]
  have "map_of d k = map_of (setitem d0 (warning_whole i) (PRef (next_free h))) k" .
  also have "\<dots> = map_of d0 k"
    using k0 by (simp add: map_of_setitem iter_keys_def)
  also have "\<dots> = map_of data k"
    using d0(1) k0 by (rule flat_fields_other)
  finally show ?case .
qed

lemma allocated_Cons:
  "allocated h (a # as) \<longleftrightarrow> a < next_free h \<and> allocated h as"
  by (simp add: allocated_def)

lemma allocated_dict_copy: "allocated h as \<Longrightarrow> allocated (snd (dict_copy a h)) as"
  by (auto simp: allocated_def dict_copy_simps list_all_iff)

lemma allocated_nth: "allocated h ws \<Longrightarrow> j < length ws \<Longrightarrow> ws ! j < next_free h"
  by (simp add: allocated_def list_all_length)

lemma cells_dict_copy_old: "b < next_free h \<Longrightarrow> cells (snd (dict_copy a h)) b = cells h b"
  by (simp add: dict_copy_simps)

lemma warning_loop_nth:
  assumes "warning_loop im i ws data h = (Inr d, h')" and "allocated h ws" and "j < length ws"
  shows "has_fields im (cells h (ws ! j)) \<and>
         cells h' (next_free h + j) = cells h (ws ! j) \<and>
         map_of d (warning_whole (i + j)) = Some (PRef (next_free h + j)) \<and>
         (\<forall>(f, src) \<in> set (field_table im).
            \<exists>v. map_of d (warning_attr (i + j) f) = Some v \<and>
                map_of (cells h (ws ! j)) src = Some v)"
  using assms
proof (induction ws arbitrary: i data h j)
  case Nil
  then show ?case by simp
next
  case (Cons a as)
  let ?h1 = "snd (dict_copy a h)"
  from Cons.prems(1) obtain d0 where d0: "flat_fields im i (cells h a) data = Inr d0"
    and rest: "warning_loop im (Suc i) as (setitem d0 (warning_whole i) (PRef (next_free h))) ?h1
       = (Inr d, h')"
    by (rule warning_loop_Cons_Inr)
  from Cons.prems(2) have a: "a < next_free h" and as: "allocated h as"
    by (simp_all add: allocated_Cons)
  have as1: "allocated ?h1 as" using as by (rule allocated_dict_copy)
  show ?case
  proof (cases j)
    case 0
    have keep: "map_of d k = map_of (setitem d0 (warning_whole i) (PRef (next_free h))) k"
      if "k \<in> set (iter_keys im i)" for k
    proof (rule warning_loop_other [OF rest], intro allI impI)
      fix j' show "k \<notin> set (iter_keys im (Suc i + j'))"
        using iter_keys_disjoint [OF _ that, of "Suc i + j'"] by simp
    qed
    have 1: "has_fields im (cells h a)"
      using d0 has_fields_iff by blast
    have "cells h' (next_free h) = cells ?h1 (next_free h)"
      using warning_loop_frame [OF rest] by (simp add: dict_copy_simps)
    then have 2: "cells h' (next_free h) = cells h a"
      by (simp add: dict_copy_simps)
    have 3: "map_of d (warning_whole i) = Some (PRef (next_free h))"
      using keep [of "warning_whole i"] by (simp add: iter_keys_def map_of_setitem)
    have 4: "\<exists>v. map_of d (warning_attr i f) = Some v \<and> map_of (cells h a) src = Some v"
      if "(f, src) \<in> set (field_table im)" for f src
    proof -
      have "warning_attr i f \<in> set (iter_keys im i)"
        using that by (force simp: iter_keys_def)
      from keep [OF this] have "map_of d (warning_attr i f) = map_of d0 (warning_attr i f)"
        by (simp add: map_of_setitem warning_attr_neq_whole)
      with flat_fields_written [OF d0 that] show ?thesis by simp
    qed
    from 1 2 3 4 show ?thesis by (auto simp: 0)
  next
    case (Suc j')
    with Cons.prems(3) have j': "j' < length as" by simp
    from allocated_nth [OF as j'] have old: "cells ?h1 (as ! j') = cells h (as ! j')"
      by (rule cells_dict_copy_old)
    from Cons.IH [OF rest as1 j'] show ?thesis
      by (simp add: Suc old dict_copy_simps(1))
  qed
qed

lemma warning_loop_total:
  "allocated h ws \<Longrightarrow> list_all (\<lambda>a. has_fields im (cells h a)) ws \<Longrightarrow>
     \<exists>d h'. warning_loop im i ws data h = (Inr d, h')"
proof (induction ws arbitrary: i data h)
  case Nil
  show ?case by simp
next
  case (Cons a as)
  let ?h1 = "snd (dict_copy a h)"
  from Cons.prems(2) have "has_fields im (cells h a)" by simp
  then obtain d0 where d0: "flat_fields im i (cells h a) data = Inr d0"
    using has_fields_iff by blast
  from Cons.prems(1) have as: "allocated h as" by (simp add: allocated_Cons)
  have "list_all (\<lambda>a. has_fields im (cells ?h1 a)) as"
    using Cons.prems(2) as
    by (auto simp: list_all_iff allocated_def cells_dict_copy_old)
  from Cons.IH [OF allocated_dict_copy [OF as] this] show ?case
    by (simp add: loop_body_Inr [OF d0])
qed


lemma extra_state_attributes_loop:
  "extra_state_attributes im self w =
     (case warning_loop im 1 (searched_warnings im self w) (base_data im self w) (dicts w) of
        (r, h) \<Rightarrow> (r, w\<lparr>dicts := h\<rparr>))"
  by (simp add: extra_state_attributes_def base_data_def)

lemma extra_state_attributes_fst:
  "fst (extra_state_attributes im self w) =
     fst (warning_loop im 1 (searched_warnings im self w) (base_data im self w) (dicts w))"
  by (simp add: extra_state_attributes_loop split: prod.splits)

lemma extra_state_attributes_snd:
  "snd (extra_state_attributes im self w) =
     w\<lparr>dicts := snd (warning_loop im 1 (searched_warnings im self w) (base_data im self w) (dicts w))\<rparr>"
  by (simp add: extra_state_attributes_loop split: prod.splits)

lemma extra_state_attributes_Inr:
  assumes "fst (extra_state_attributes im self w) = Inr d"
  obtains h' where
    "warning_loop im 1 (searched_warnings im self w) (base_data im self w) (dicts w) = (Inr d, h')"
    "snd (extra_state_attributes im self w) = w\<lparr>dicts := h'\<rparr>"
proof (cases "warning_loop im 1 (searched_warnings im self w) (base_data im self w) (dicts w)")
  case (Pair r h')
  with assms have "r = Inr d" by (simp add: extra_state_attributes_fst del: One_nat_def)
  with Pair that show ?thesis by (simp add: extra_state_attributes_snd del: One_nat_def)
qed

lemma map_of_base_data:
  assumes "ATTR_REGION_NAME im = ''region_name''" "ATTR_REGION_ID im = ''region_id''"
    "ATTR_LAST_UPDATE im = ''last_update''" "ATTR_WARNING_COUNT im = ''warning_count''"
  shows
  "map_of (base_data im self w) ''region_name'' = Some (warncell_name (apis w (sensor_api self)))"
  "map_of (base_data im self w) ''region_id'' = Some (warncell_id (apis w (sensor_api self)))"
  "map_of (base_data im self w) ''last_update'' = Some (last_update (apis w (sensor_api self)))"
  "map_of (base_data im self w) ''warning_count'' =
     Some (PInt (int (length (searched_warnings im self w))))"
  by (simp_all add: base_data_def dict_literal_def map_of_setitem assms)

lemma base_keys_not_iter:
  assumes "k \<in> {''region_name'', ''region_id'', ''last_update'', ''warning_count''}"
  shows "k \<notin> set (iter_keys im i)"
  using plain_key_neq [OF assms] by (auto simp: iter_keys_def)

lemma extra_state_attributes_total:
  assumes "allocated (dicts w) (searched_warnings im self w)"
    and "list_all (\<lambda>a. has_fields im (cells (dicts w) a)) (searched_warnings im self w)"
  shows "\<exists>d. fst (extra_state_attributes im self w) = Inr d"
  using warning_loop_total [OF assms, of 1 "base_data im self w"]
  by (auto simp: extra_state_attributes_fst)

lemma flattenedI:
  "(\<And>f src. (f, src) \<in> set (field_table im) \<Longrightarrow>
      \<exists>v. map_of d (warning_attr i f) = Some v \<and> map_of warning src = Some v) \<Longrightarrow>
   flattened im d i warning"
  by (force simp: flattened_def list_all_iff)

lemma str_nat_small:
  "str_nat 1 = ''1''" "str_nat 2 = ''2''" "str_nat (Suc 0) = ''1''"
  by code_simp+

lemma extra_state_attributes_base:
  assumes "fst (extra_state_attributes im self w) = Inr d"
    and "\<And>i. k \<notin> set (iter_keys im i)"
  shows "map_of d k = map_of (base_data im self w) k"
proof -
  from assms(1) obtain h' where
    "warning_loop im 1 (searched_warnings im self w) (base_data im self w) (dicts w) = (Inr d, h')"
    by (rule extra_state_attributes_Inr)
  then show ?thesis
    by (rule warning_loop_other) (simp add: assms(2))
qed

lemma loop_body_copy_only_eq: "loop_body im i a data h = loop_body_copy_only im i a data h"
proof (cases "flat_fields im i (cells h a) data")
  case (Inl e)
  then show ?thesis by (simp add: loop_body_Inl loop_body_copy_only_def)
next
  case (Inr d0)
  then show ?thesis
    by (simp add: loop_body_Inr loop_body_copy_only_def dict_copy_def)
qed

lemma extra_state_attributes_frame:
  "coordinators (snd (extra_state_attributes im self w)) = coordinators w"
  "apis (snd (extra_state_attributes im self w)) = apis w"
  "next_free (dicts w) \<le> next_free (dicts (snd (extra_state_attributes im self w)))"
  "a < next_free (dicts w) \<Longrightarrow>
     cells (dicts (snd (extra_state_attributes im self w))) a = cells (dicts w) a"
proof -
  obtain r h' where loop:
    "warning_loop im 1 (searched_warnings im self w) (base_data im self w) (dicts w) = (r, h')"
    by (cases "warning_loop im 1 (searched_warnings im self w) (base_data im self w) (dicts w)")
  then have w': "snd (extra_state_attributes im self w) = w\<lparr>dicts := h'\<rparr>"
    by (simp add: extra_state_attributes_snd del: One_nat_def)
  show "coordinators (snd (extra_state_attributes im self w)) = coordinators w"
    "apis (snd (extra_state_attributes im self w)) = apis w"
    by (simp_all add: w')
  from warning_loop_frame [OF loop]
  show "next_free (dicts w) \<le> next_free (dicts (snd (extra_state_attributes im self w)))"
    by (simp add: w')
  from warning_loop_frame [OF loop]
  show "a < next_free (dicts w) \<Longrightarrow>
     cells (dicts (snd (extra_state_attributes im self w))) a = cells (dicts w) a"
    by (simp add: w')
qed

lemma allocated_cells_eq:
  "allocated h ws \<Longrightarrow> (\<And>a. a < next_free h \<Longrightarrow> cells h' a = cells h a) \<Longrightarrow>
     map (cells h') ws = map (cells h) ws"
  by (simp add: allocated_def list_all_iff)




lemma unique_ids_differ: "k1 \<noteq> k2 \<Longrightarrow> u @ ''-'' @ k1 \<noteq> u @ ''-'' @ k2"
  by simp

lemma async_setup_entry_Inr:
  assumes "async_setup_entry im w hass entry = Inr calls"
  obtains by_entry c where "hass_data hass (DOMAIN im) = Some by_entry"
    "by_entry (entry_id entry) = Some c"
    "calls = [Async_add_entities
                [init_sensor im w c entry (SENSOR_TYPES im ! 0),
                 init_sensor im w c entry (SENSOR_TYPES im ! 1)] True]"
  using assms
  by (auto simp: async_setup_entry_def SENSOR_TYPES_def split: option.splits)

lemma extra_state_attributes_Inr_fields:
  assumes "allocated (dicts w) (searched_warnings im self w)"
    and "fst (extra_state_attributes im self w) = Inr d"
  shows "list_all (\<lambda>a. has_fields im (cells (dicts w) a)) (searched_warnings im self w)"
proof -
  from assms(2) obtain h' where loop:
    "warning_loop im 1 (searched_warnings im self w) (base_data im self w) (dicts w) = (Inr d, h')"
    by (rule extra_state_attributes_Inr)
  have "has_fields im (cells (dicts w) (searched_warnings im self w ! j))"
    if "j < length (searched_warnings im self w)" for j
    using warning_loop_nth [OF loop assms(1) that] by blast
  then show ?thesis by (simp add: list_all_length)
qed

lemma extra_state_attributes_raises:
  assumes "allocated (dicts w) (searched_warnings im self w)"
    and "\<not> list_all (\<lambda>a. has_fields im (cells (dicts w) a)) (searched_warnings im self w)"
  shows "\<exists>k. fst (extra_state_attributes im self w) = Inl (KeyError k)"
proof (cases "fst (extra_state_attributes im self w)")
  case (Inl e)
  then show ?thesis by (cases e) simp
next
  case (Inr d)
  with assms extra_state_attributes_Inr_fields show ?thesis by blast
qed







section \<open>Results\<close>

text \<open>
  C1. For every sensor and every state of the API object, \<open>extra_state_attributes\<close>
  flattens the selected warning list (the API's \<open>current_warnings\<close> when the
  description key is \<open>CURRENT_WARNING_SENSOR\<close>, its \<open>expected_warnings\<close> otherwise):
  whenever it returns a dictionary \<open>d\<close>, then for every \<open>i\<close> from 1 to the length of
  the list, \<open>d\<close> has the ten keys \<^verbatim>\<open>warning_i_name\<close>, \<^verbatim>\<open>warning_i_type\<close>,
  \<^verbatim>\<open>warning_i_level\<close>, \<^verbatim>\<open>warning_i_headline\<close>, \<^verbatim>\<open>warning_i_description\<close>,
  \<^verbatim>\<open>warning_i_instruction\<close>, \<^verbatim>\<open>warning_i_start\<close>, \<^verbatim>\<open>warning_i_end\<close>,
  \<^verbatim>\<open>warning_i_parameters\<close> and \<^verbatim>\<open>warning_i_color\<close>, each with the value the
  \<open>i\<close>-th warning of the list has under the corresponding API key. It returns a
  dictionary exactly when every warning of the list has the ten API keys; a warning that
  lacks one makes the read of that key raise \<^verbatim>\<open>KeyError\<close>. The hypothesis is the
  invariant of the store: the references in the list are allocated.
\<close>

theorem extra_state_attributes_flattens:
  assumes "allocated (dicts w) (searched_warnings im self w)"
  shows "searched_warnings im self w =
           (if key (entity_description self) = CURRENT_WARNING_SENSOR im
            then current_warnings (apis w (sensor_api self))
            else expected_warnings (apis w (sensor_api self))) \<and>
         (list_all (\<lambda>a. has_fields im (cells (dicts w) a)) (searched_warnings im self w) \<longleftrightarrow>
            (\<exists>d. fst (extra_state_attributes im self w) = Inr d)) \<and>
         (\<forall>d. fst (extra_state_attributes im self w) = Inr d \<longrightarrow>
            (\<forall>i. 1 \<le> i \<and> i \<le> length (searched_warnings im self w) \<longrightarrow>
               flattened im d i (cells (dicts w) (searched_warnings im self w ! (i - 1)))))"
proof (intro conjI impI allI)
  show "searched_warnings im self w =
           (if key (entity_description self) = CURRENT_WARNING_SENSOR im
            then current_warnings (apis w (sensor_api self))
            else expected_warnings (apis w (sensor_api self)))"
    by (simp add: searched_warnings_def)
next
  show "list_all (\<lambda>a. has_fields im (cells (dicts w) a)) (searched_warnings im self w) \<longleftrightarrow>
      (\<exists>d. fst (extra_state_attributes im self w) = Inr d)"
    using extra_state_attributes_total [OF assms] extra_state_attributes_Inr_fields [OF assms]
    by blast
next
  fix d i
  assume d: "fst (extra_state_attributes im self w) = Inr d"
    and i: "1 \<le> i \<and> i \<le> length (searched_warnings im self w)"
  from d obtain h' where loop:
    "warning_loop im 1 (searched_warnings im self w) (base_data im self w) (dicts w) = (Inr d, h')"
    by (rule extra_state_attributes_Inr)
  from i have j: "i - 1 < length (searched_warnings im self w)" and i1: "1 + (i - 1) = i"
    by arith+
  from warning_loop_nth [OF loop assms j] show
    "flattened im d i (cells (dicts w) (searched_warnings im self w ! (i - 1)))"
    unfolding i1 by (intro flattenedI) blast
qed

theorem extra_state_attributes_flattens_witness:
  "allocated (dicts example_world) (searched_warnings example_imported example_current example_world) \<and>
   list_all (\<lambda>a. has_fields example_imported (cells (dicts example_world) a))
     (searched_warnings example_imported example_current example_world) \<and>
   (\<exists>d. fst (extra_state_attributes example_imported example_current example_world) = Inr d \<and>
        flattened example_imported d 1 (example_warning ''FROST'' 22 1) \<and>
        flattened example_imported d 2 (example_warning ''STURM'' 52 2) \<and>
        map_of d ''warning_1_name'' = Some (PStr ''FROST'') \<and>
        map_of d ''warning_2_level'' = Some (PInt 2))"
proof -
  have sw: "searched_warnings example_imported example_current example_world = [0, 1]"
    by (simp add: searched_warnings_def example_current_def init_sensor_def SENSOR_TYPES_def
        example_world_def example_api_def example_imported_def)
  have a: "allocated (dicts example_world) (searched_warnings example_imported example_current example_world)"
    unfolding sw by (simp add: allocated_def example_world_def example_store_def)
  have f: "list_all (\<lambda>a. has_fields example_imported (cells (dicts example_world) a))
     (searched_warnings example_imported example_current example_world)"
    unfolding sw
    by (simp add: has_fields_def field_table_def example_imported_def example_world_def
        example_store_def example_warning_def)
  have c: "cells (dicts example_world) 0 = example_warning ''FROST'' 22 1"
    "cells (dicts example_world) (Suc 0) = example_warning ''STURM'' 52 2"
    by (simp_all add: example_world_def example_store_def)
  note T = extra_state_attributes_flattens [OF a]
  from T f obtain d where
    d: "fst (extra_state_attributes example_imported example_current example_world) = Inr d"
    by blast
  from T d have fl: "\<forall>i. 1 \<le> i \<and> i \<le> length (searched_warnings example_imported example_current example_world) \<longrightarrow>
      flattened example_imported d i
        (cells (dicts example_world) (searched_warnings example_imported example_current example_world ! (i - 1)))"
    by blast
  from fl [rule_format, of 1] fl [rule_format, of 2]
  have fl12: "flattened example_imported d 1 (example_warning ''FROST'' 22 1)"
    "flattened example_imported d 2 (example_warning ''STURM'' 52 2)"
    unfolding sw by (simp_all add: c)
  from fl12 have "map_of d ''warning_1_name'' = Some (PStr ''FROST'')"
    "map_of d ''warning_2_level'' = Some (PInt 2)"
    by (simp_all add: flattened_def field_table_def example_imported_def warning_attr_def
        str_nat_small example_warning_def)
  with a f d fl12 show ?thesis by blast
qed

text \<open>
  C2. For every config entry, \<open>async_setup_entry\<close>, once it has found the entry's
  coordinator, calls \<open>async_add_entities\<close> once, with exactly two sensors, one per entry
  of \<open>SENSOR_TYPES\<close> and in its order: the first has the key \<open>CURRENT_WARNING_SENSOR\<close>,
  the second the key \<open>ADVANCE_WARNING_SENSOR\<close>. The unique id of each is the entry's
  \<open>unique_id\<close>, a hyphen and the description key, and the two ids differ as the two keys
  do. It finds the coordinator when it is stored under
  \<^verbatim>\<open>hass.data[DOMAIN][entry.entry_id]\<close>; otherwise the lookup raises \<^verbatim>\<open>KeyError\<close>.
\<close>

theorem async_setup_entry_two_sensors:
  "(\<forall>by_entry c. hass_data hass (DOMAIN im) = Some by_entry \<and>
       by_entry (entry_id entry) = Some c \<longrightarrow>
       (\<exists>s1 s2. (async_setup_entry im w hass entry :: error + 'cfg call list) =
          Inr [Async_add_entities [s1, s2] True])) \<and>
   (\<forall>calls :: 'cfg call list. async_setup_entry im w hass entry = Inr calls \<longrightarrow>
       (\<exists>s1 s2. calls = [Async_add_entities [s1, s2] True] \<and>
          map entity_description [s1, s2] = SENSOR_TYPES im \<and>
          key (entity_description s1) = CURRENT_WARNING_SENSOR im \<and>
          key (entity_description s2) = ADVANCE_WARNING_SENSOR im \<and>
          attr_unique_id s1 = str_opt (unique_id entry) @ ''-'' @ key (entity_description s1) \<and>
          attr_unique_id s2 = str_opt (unique_id entry) @ ''-'' @ key (entity_description s2) \<and>
          (CURRENT_WARNING_SENSOR im \<noteq> ADVANCE_WARNING_SENSOR im \<longrightarrow>
             attr_unique_id s1 \<noteq> attr_unique_id s2)))"
proof (intro conjI allI impI)
  fix by_entry c
  assume "hass_data hass (DOMAIN im) = Some by_entry \<and> by_entry (entry_id entry) = Some c"
  then show "\<exists>s1 s2. (async_setup_entry im w hass entry :: error + 'cfg call list) =
      Inr [Async_add_entities [s1, s2] True]"
    by (simp add: async_setup_entry_def SENSOR_TYPES_def)
next
  fix calls :: "'cfg call list"
  assume "async_setup_entry im w hass entry = Inr calls"
  then obtain by_entry c where
    calls: "calls = [Async_add_entities
                [init_sensor im w c entry (SENSOR_TYPES im ! 0),
                 init_sensor im w c entry (SENSOR_TYPES im ! 1)] True]"
    by (rule async_setup_entry_Inr)
  let ?s1 = "init_sensor im w c entry (SENSOR_TYPES im ! 0)"
  let ?s2 = "init_sensor im w c entry (SENSOR_TYPES im ! 1)"
  have "map entity_description [?s1, ?s2] = SENSOR_TYPES im"
    by (simp add: init_sensor_def SENSOR_TYPES_def)
  moreover have k: "key (entity_description ?s1) = CURRENT_WARNING_SENSOR im"
    "key (entity_description ?s2) = ADVANCE_WARNING_SENSOR im"
    by (simp_all add: init_sensor_def SENSOR_TYPES_def)
  moreover have u: "attr_unique_id ?s1 = str_opt (unique_id entry) @ ''-'' @ key (entity_description ?s1)"
    "attr_unique_id ?s2 = str_opt (unique_id entry) @ ''-'' @ key (entity_description ?s2)"
    by (simp_all add: init_sensor_def)
  moreover have "CURRENT_WARNING_SENSOR im \<noteq> ADVANCE_WARNING_SENSOR im \<longrightarrow>
      attr_unique_id ?s1 \<noteq> attr_unique_id ?s2"
    unfolding u k using unique_ids_differ by blast
  ultimately show "\<exists>s1 s2. calls = [Async_add_entities [s1, s2] True] \<and>
          map entity_description [s1, s2] = SENSOR_TYPES im \<and>
          key (entity_description s1) = CURRENT_WARNING_SENSOR im \<and>
          key (entity_description s2) = ADVANCE_WARNING_SENSOR im \<and>
          attr_unique_id s1 = str_opt (unique_id entry) @ ''-'' @ key (entity_description s1) \<and>
          attr_unique_id s2 = str_opt (unique_id entry) @ ''-'' @ key (entity_description s2) \<and>
          (CURRENT_WARNING_SENSOR im \<noteq> ADVANCE_WARNING_SENSOR im \<longrightarrow>
             attr_unique_id s1 \<noteq> attr_unique_id s2)"
    using calls by blast
qed

theorem async_setup_entry_two_sensors_witness:
  "hass_data example_hass (DOMAIN example_imported) = Some [''abc'' \<mapsto> 0] \<and>
   [''abc'' \<mapsto> (0::nat)] (entry_id example_entry) = Some 0 \<and>
   CURRENT_WARNING_SENSOR example_imported \<noteq> ADVANCE_WARNING_SENSOR example_imported \<and>
   (\<exists>s1 s2. (async_setup_entry example_imported example_world example_hass example_entry
               :: error + unit call list) = Inr [Async_add_entities [s1, s2] True] \<and>
      key (entity_description s1) = ''current_warning_level'' \<and>
      key (entity_description s2) = ''advance_warning_level'' \<and>
      attr_unique_id s1 = ''111000000-current_warning_level'' \<and>
      attr_unique_id s2 = ''111000000-advance_warning_level'' \<and>
      attr_unique_id s1 \<noteq> attr_unique_id s2)"
proof -
  have h: "hass_data example_hass (DOMAIN example_imported) = Some [''abc'' \<mapsto> 0]"
    "[''abc'' \<mapsto> (0::nat)] (entry_id example_entry) = Some 0"
    by (simp_all add: example_hass_def example_imported_def example_entry_def)
  have ne: "CURRENT_WARNING_SENSOR example_imported \<noteq> ADVANCE_WARNING_SENSOR example_imported"
    by (simp add: example_imported_def)
  note T = async_setup_entry_two_sensors [where hass = example_hass and im = example_imported
      and entry = example_entry and w = example_world and ?'cfg = unit]
  from T h obtain t1 t2 where
    r: "(async_setup_entry example_imported example_world example_hass example_entry
          :: error + unit call list) = Inr [Async_add_entities [t1, t2] True]"
    by blast
  from T r ne obtain s1 s2 where
    s: "[Async_add_entities [t1, t2] True] = [Async_add_entities [s1, s2] True]"
      "key (entity_description s1) = CURRENT_WARNING_SENSOR example_imported"
      "key (entity_description s2) = ADVANCE_WARNING_SENSOR example_imported"
      "attr_unique_id s1 = str_opt (unique_id example_entry) @ ''-'' @ key (entity_description s1)"
      "attr_unique_id s2 = str_opt (unique_id example_entry) @ ''-'' @ key (entity_description s2)"
      "attr_unique_id s1 \<noteq> attr_unique_id s2"
    by blast
  from s(1) have t: "t1 = s1" "t2 = s2" by simp_all
  from s have k: "key (entity_description s1) = ''current_warning_level''"
    "key (entity_description s2) = ''advance_warning_level''"
    by (simp_all add: example_imported_def)
  from s(4,5) have "attr_unique_id s1 = ''111000000-current_warning_level''"
    "attr_unique_id s2 = ''111000000-advance_warning_level''"
    unfolding k by (simp_all add: example_entry_def str_opt_def)
  with h ne r k s(6) show ?thesis unfolding t by blast
qed

text \<open>
  C3. For every sensor and every state of the API object, \<open>native_value\<close> returns the
  API's \<open>current_warning_level\<close> when the key of the sensor's entity description equals
  \<open>CURRENT_WARNING_SENSOR\<close>, and the API's \<open>expected_warning_level\<close> for every other key.
\<close>

theorem native_value_by_key:
  "(key (entity_description self) = CURRENT_WARNING_SENSOR im \<longrightarrow>
      fst (native_value im self w) = current_warning_level (apis w (sensor_api self))) \<and>
   (key (entity_description self) \<noteq> CURRENT_WARNING_SENSOR im \<longrightarrow>
      fst (native_value im self w) = expected_warning_level (apis w (sensor_api self)))"
  by (simp add: native_value_def)

theorem native_value_by_key_witness:
  "key (entity_description example_current) = CURRENT_WARNING_SENSOR example_imported \<and>
   fst (native_value example_imported example_current example_world) = PInt 2 \<and>
   key (entity_description example_advance) \<noteq> CURRENT_WARNING_SENSOR example_imported \<and>
   fst (native_value example_imported example_advance example_world) = PInt 1"
  using native_value_by_key [of example_current example_imported example_world]
    native_value_by_key [of example_advance example_imported example_world]
  by (simp add: example_current_def example_advance_def init_sensor_def SENSOR_TYPES_def
      example_world_def example_api_def example_imported_def)

text \<open>
  C4. For every configuration and every value of \<open>discovery_info\<close>, \<^verbatim>\<open>None\<close> included,
  \<open>async_setup_platform\<close> makes two calls: it registers the issue
  \<^verbatim>\<open>deprecated_yaml_<DOMAIN>\<close>, and it starts, as a task, one config flow of the
  integration's domain whose context has the source \<open>SOURCE_IMPORT\<close> and whose data is
  the configuration it was given. It never calls the callback that adds entities.
\<close>

theorem async_setup_platform_import:
  "(\<exists>i. async_setup_platform im hass config add_entities discovery_info =
          [Async_create_issue i,
           Async_create_task_flow_init (DOMAIN im) [(''source'', SOURCE_IMPORT im)] config] \<and>
        issue_id i = ''deprecated_yaml_'' @ DOMAIN im \<and>
        issue_domain i = DOMAIN im \<and>
        severity i = WARNING \<and>
        translation_key i = ''deprecated_yaml'') \<and>
   length (filter is_create_issue
     (async_setup_platform im hass config add_entities discovery_info)) = 1 \<and>
   filter is_flow_init (async_setup_platform im hass config add_entities discovery_info) =
     [Async_create_task_flow_init (DOMAIN im) [(''source'', SOURCE_IMPORT im)] config] \<and>
   filter is_add_entities (async_setup_platform im hass config add_entities discovery_info) = [] \<and>
   async_setup_platform im hass config add_entities None =
     async_setup_platform im hass config add_entities discovery_info"
  by (simp add: async_setup_platform_def)

theorem async_setup_platform_import_witness:
  "filter is_flow_init
     (async_setup_platform example_imported example_hass
        [(''platform'', ''dwd_weather_warnings''), (''region_name'', ''Berlin'')] () (Some True)) =
     [Async_create_task_flow_init ''dwd_weather_warnings'' [(''source'', ''import'')]
        [(''platform'', ''dwd_weather_warnings''), (''region_name'', ''Berlin'')]] \<and>
   filter is_add_entities
     (async_setup_platform example_imported example_hass
        [(''platform'', ''dwd_weather_warnings''), (''region_name'', ''Berlin'')] () (Some True)) = []"
proof -
  have d: "DOMAIN example_imported = ''dwd_weather_warnings''"
    "SOURCE_IMPORT example_imported = ''import''"
    by (simp_all add: example_imported_def)
  note T = async_setup_platform_import [where im = example_imported and hass = example_hass
      and config = "[(''platform'', ''dwd_weather_warnings''), (''region_name'', ''Berlin'')]"
      and add_entities = "()" and discovery_info = "Some True"]
  note T2 = T [THEN conjunct2, THEN conjunct2]
  from T2 [THEN conjunct1] T2 [THEN conjunct2, THEN conjunct1]
  show ?thesis unfolding d by (rule conjI)
qed

text \<open>
  C5. The properties only read the coordinator and the API object. \<open>native_value\<close> and
  \<open>available\<close> leave the world as it is. \<open>extra_state_attributes\<close>, whether it returns
  or raises, leaves every coordinator and every API object unchanged, and every
  dictionary that was allocated before the call keeps its items, in particular the
  warning dictionaries of \<open>current_warnings\<close> and \<open>expected_warnings\<close>: the copies are
  new objects, and the two assignments go to the copies.
\<close>

theorem sensor_properties_read_only:
  "snd (native_value im self w) = w \<and>
   snd (available self w) = w \<and>
   coordinators (snd (extra_state_attributes im self w)) = coordinators w \<and>
   apis (snd (extra_state_attributes im self w)) = apis w \<and>
   (\<forall>a. a < next_free (dicts w) \<longrightarrow>
      cells (dicts (snd (extra_state_attributes im self w))) a = cells (dicts w) a) \<and>
   (\<forall>r. allocated (dicts w) (current_warnings (apis w r)) \<longrightarrow>
      map (cells (dicts (snd (extra_state_attributes im self w)))) (current_warnings (apis w r))
        = map (cells (dicts w)) (current_warnings (apis w r))) \<and>
   (\<forall>r. allocated (dicts w) (expected_warnings (apis w r)) \<longrightarrow>
      map (cells (dicts (snd (extra_state_attributes im self w)))) (expected_warnings (apis w r))
        = map (cells (dicts w)) (expected_warnings (apis w r)))"
proof (intro conjI allI impI)
  show "snd (native_value im self w) = w" by (simp add: native_value_def)
  show "snd (available self w) = w" by (simp add: available_def)
  show "coordinators (snd (extra_state_attributes im self w)) = coordinators w"
    by (rule extra_state_attributes_frame)
  show "apis (snd (extra_state_attributes im self w)) = apis w"
    by (rule extra_state_attributes_frame)
next
  fix a assume "a < next_free (dicts w)"
  then show "cells (dicts (snd (extra_state_attributes im self w))) a = cells (dicts w) a"
    by (rule extra_state_attributes_frame)
next
  fix r assume "allocated (dicts w) (current_warnings (apis w r))"
  then show "map (cells (dicts (snd (extra_state_attributes im self w)))) (current_warnings (apis w r))
        = map (cells (dicts w)) (current_warnings (apis w r))"
    by (rule allocated_cells_eq) (rule extra_state_attributes_frame)
next
  fix r assume "allocated (dicts w) (expected_warnings (apis w r))"
  then show "map (cells (dicts (snd (extra_state_attributes im self w)))) (expected_warnings (apis w r))
        = map (cells (dicts w)) (expected_warnings (apis w r))"
    by (rule allocated_cells_eq) (rule extra_state_attributes_frame)
qed

theorem sensor_properties_read_only_witness:
  "(1::nat) < next_free (dicts example_world) \<and>
   allocated (dicts example_world) (current_warnings (apis example_world 0)) \<and>
   allocated (dicts example_world) (expected_warnings (apis example_world 0)) \<and>
   snd (native_value example_imported example_current example_world) = example_world \<and>
   snd (available example_current example_world) = example_world \<and>
   apis (snd (extra_state_attributes example_imported example_current example_world)) 0
     = example_api \<and>
   cells (dicts (snd (extra_state_attributes example_imported example_current example_world))) 1
     = example_warning ''STURM'' 52 2 \<and>
   map (cells (dicts (snd (extra_state_attributes example_imported example_current example_world))))
     (current_warnings example_api) = [example_warning ''FROST'' 22 1, example_warning ''STURM'' 52 2] \<and>
   map (cells (dicts (snd (extra_state_attributes example_imported example_current example_world))))
     (expected_warnings example_api) = [example_warning ''GLATTEIS'' 84 1]"
proof -
  have n: "(1::nat) < next_free (dicts example_world)"
    by (simp add: example_world_def example_store_def)
  have api: "apis example_world 0 = example_api"
    by (simp add: example_world_def)
  have a: "allocated (dicts example_world) (current_warnings (apis example_world 0))"
    "allocated (dicts example_world) (expected_warnings (apis example_world 0))"
    by (simp_all add: allocated_def example_world_def example_store_def example_api_def)
  have c: "cells (dicts example_world) (Suc 0) = example_warning ''STURM'' 52 2"
    "map (cells (dicts example_world)) (current_warnings example_api)
       = [example_warning ''FROST'' 22 1, example_warning ''STURM'' 52 2]"
    "map (cells (dicts example_world)) (expected_warnings example_api)
       = [example_warning ''GLATTEIS'' 84 1]"
    by (simp_all add: example_world_def example_store_def example_api_def)
  note T = sensor_properties_read_only [where im = example_imported and self = example_current
      and w = example_world]
  from T have 1: "snd (native_value example_imported example_current example_world) = example_world"
    "snd (available example_current example_world) = example_world"
    "apis (snd (extra_state_attributes example_imported example_current example_world)) 0
       = example_api"
    by (simp_all add: api)
  from T n have 2:
    "cells (dicts (snd (extra_state_attributes example_imported example_current example_world))) 1
       = example_warning ''STURM'' 52 2"
    by (simp add: c)
  note T5 = T [THEN conjunct2, THEN conjunct2, THEN conjunct2, THEN conjunct2, THEN conjunct2]
  from T5 [THEN conjunct1, rule_format, of 0, OF a(1)] have 3:
    "map (cells (dicts (snd (extra_state_attributes example_imported example_current example_world))))
       (current_warnings example_api) = [example_warning ''FROST'' 22 1, example_warning ''STURM'' 52 2]"
    unfolding api c(2) .
  from T5 [THEN conjunct2, rule_format, of 0, OF a(2)] have 4:
    "map (cells (dicts (snd (extra_state_attributes example_imported example_current example_world))))
       (expected_warnings example_api) = [example_warning ''GLATTEIS'' 84 1]"
    unfolding api c(3) .
  from n a 1 2 3 4 show ?thesis by (intro conjI)
qed



text \<open>
  C7. For every state of the API object, whenever \<open>extra_state_attributes\<close> returns a
  dictionary, it contains the keys \<^verbatim>\<open>region_name\<close>, \<^verbatim>\<open>region_id\<close> and
  \<^verbatim>\<open>last_update\<close> with the API's \<open>warncell_name\<close>, \<open>warncell_id\<close> and \<open>last_update\<close>,
  and \<^verbatim>\<open>warning_count\<close> with the length of the selected list. With an empty list it
  returns a dictionary, whose count is 0; in general it returns one when every warning
  of the list has the ten API keys. The four keys are the values of \<open>ATTR_REGION_NAME\<close>,
  \<open>ATTR_REGION_ID\<close>, \<open>ATTR_LAST_UPDATE\<close> and \<open>ATTR_WARNING_COUNT\<close>; no key the loop
  writes is one of them.
\<close>

theorem extra_state_attributes_region:
  assumes "allocated (dicts w) (searched_warnings im self w)"
    and names: "ATTR_REGION_NAME im = ''region_name''" "ATTR_REGION_ID im = ''region_id''"
      "ATTR_LAST_UPDATE im = ''last_update''" "ATTR_WARNING_COUNT im = ''warning_count''"
  shows "(list_all (\<lambda>a. has_fields im (cells (dicts w) a)) (searched_warnings im self w) \<longrightarrow>
            (\<exists>d. fst (extra_state_attributes im self w) = Inr d)) \<and>
         (searched_warnings im self w = [] \<longrightarrow>
            (\<exists>d. fst (extra_state_attributes im self w) = Inr d \<and>
                 map_of d ''warning_count'' = Some (PInt 0))) \<and>
         (\<forall>d. fst (extra_state_attributes im self w) = Inr d \<longrightarrow>
            map_of d ''region_name'' = Some (warncell_name (apis w (sensor_api self))) \<and>
            map_of d ''region_id'' = Some (warncell_id (apis w (sensor_api self))) \<and>
            map_of d ''last_update'' = Some (last_update (apis w (sensor_api self))) \<and>
            map_of d ''warning_count'' =
              Some (PInt (int (length (searched_warnings im self w)))))"
proof -
  have keys: "map_of d ''region_name'' = Some (warncell_name (apis w (sensor_api self))) \<and>
      map_of d ''region_id'' = Some (warncell_id (apis w (sensor_api self))) \<and>
      map_of d ''last_update'' = Some (last_update (apis w (sensor_api self))) \<and>
      map_of d ''warning_count'' = Some (PInt (int (length (searched_warnings im self w))))"
    if "fst (extra_state_attributes im self w) = Inr d" for d
    using extra_state_attributes_base [OF that] base_keys_not_iter [of _ im]
    by (simp add: map_of_base_data [OF names])
  have total: "\<exists>d. fst (extra_state_attributes im self w) = Inr d"
    if "list_all (\<lambda>a. has_fields im (cells (dicts w) a)) (searched_warnings im self w)"
    using assms(1) that by (rule extra_state_attributes_total)
  have empty: "\<exists>d. fst (extra_state_attributes im self w) = Inr d \<and>
      map_of d ''warning_count'' = Some (PInt 0)"
    if e: "searched_warnings im self w = []"
  proof -
    from e total obtain d where d: "fst (extra_state_attributes im self w) = Inr d"
      by auto
    from keys [OF d] e have "map_of d ''warning_count'' = Some (PInt 0)" by simp
    with d show ?thesis by blast
  qed
  from keys total empty show ?thesis by blast
qed

theorem extra_state_attributes_region_witness:
  "allocated (dicts example_world) (searched_warnings example_imported example_current example_world) \<and>
   ATTR_REGION_NAME example_imported = ''region_name'' \<and>
   ATTR_REGION_ID example_imported = ''region_id'' \<and>
   ATTR_LAST_UPDATE example_imported = ''last_update'' \<and>
   ATTR_WARNING_COUNT example_imported = ''warning_count'' \<and>
   list_all (\<lambda>a. has_fields example_imported (cells (dicts example_world) a))
     (searched_warnings example_imported example_current example_world) \<and>
   (\<exists>d. fst (extra_state_attributes example_imported example_current example_world) = Inr d \<and>
        map_of d ''region_name'' = Some (PStr ''Stadt Berlin'') \<and>
        map_of d ''region_id'' = Some (PInt 111000000) \<and>
        map_of d ''last_update'' = Some (PInt 1500) \<and>
        map_of d ''warning_count'' = Some (PInt 2)) \<and>
   allocated (dicts example_quiet) (searched_warnings example_imported example_current example_quiet) \<and>
   searched_warnings example_imported example_current example_quiet = [] \<and>
   (\<exists>d. fst (extra_state_attributes example_imported example_current example_quiet) = Inr d \<and>
        map_of d ''region_name'' = Some (PStr ''Stadt Berlin'') \<and>
        map_of d ''warning_count'' = Some (PInt 0))"
proof -
  have names: "ATTR_REGION_NAME example_imported = ''region_name''"
    "ATTR_REGION_ID example_imported = ''region_id''"
    "ATTR_LAST_UPDATE example_imported = ''last_update''"
    "ATTR_WARNING_COUNT example_imported = ''warning_count''"
    by (simp_all add: example_imported_def)
  have sw: "searched_warnings example_imported example_current example_world = [0, 1]"
    by (simp add: searched_warnings_def example_current_def init_sensor_def SENSOR_TYPES_def
        example_world_def example_api_def example_imported_def)
  have a: "allocated (dicts example_world) (searched_warnings example_imported example_current example_world)"
    unfolding sw by (simp add: allocated_def example_world_def example_store_def)
  have f: "list_all (\<lambda>a. has_fields example_imported (cells (dicts example_world) a))
     (searched_warnings example_imported example_current example_world)"
    unfolding sw
    by (simp add: has_fields_def field_table_def example_imported_def example_world_def
        example_store_def example_warning_def)
  have api: "apis example_world (sensor_api example_current) = example_api"
    "apis example_quiet (sensor_api example_current) =
       example_api\<lparr>current_warning_level := PInt 0, current_warnings := []\<rparr>"
    by (simp_all add: example_world_def example_quiet_def)
  have q: "searched_warnings example_imported example_current example_quiet = []"
    by (simp add: searched_warnings_def example_current_def init_sensor_def SENSOR_TYPES_def
        example_quiet_def example_world_def example_imported_def)
  have aq: "allocated (dicts example_quiet) (searched_warnings example_imported example_current example_quiet)"
    unfolding q by (simp add: allocated_def)
  note T = extra_state_attributes_region [OF a names]
  from T f obtain d where
    d: "fst (extra_state_attributes example_imported example_current example_world) = Inr d"
    by blast
  from T d have "map_of d ''region_name'' = Some (PStr ''Stadt Berlin'') \<and>
      map_of d ''region_id'' = Some (PInt 111000000) \<and>
      map_of d ''last_update'' = Some (PInt 1500) \<and>
      map_of d ''warning_count'' = Some (PInt 2)"
    unfolding sw api by (simp add: example_api_def)
  with d have 1: "\<exists>d. fst (extra_state_attributes example_imported example_current example_world) = Inr d \<and>
        map_of d ''region_name'' = Some (PStr ''Stadt Berlin'') \<and>
        map_of d ''region_id'' = Some (PInt 111000000) \<and>
        map_of d ''last_update'' = Some (PInt 1500) \<and>
        map_of d ''warning_count'' = Some (PInt 2)"
    by blast
  note Q = extra_state_attributes_region [OF aq names]
  from Q q obtain e where
    e: "fst (extra_state_attributes example_imported example_current example_quiet) = Inr e"
      "map_of e ''warning_count'' = Some (PInt 0)"
    by blast
  from Q e(1) have "map_of e ''region_name'' = Some (PStr ''Stadt Berlin'')"
    unfolding api by (simp add: example_api_def)
  with e have 2: "\<exists>d. fst (extra_state_attributes example_imported example_current example_quiet) = Inr d \<and>
        map_of d ''region_name'' = Some (PStr ''Stadt Berlin'') \<and>
        map_of d ''warning_count'' = Some (PInt 0)"
    by blast
  from a names f 1 aq q 2 show ?thesis by (intro conjI)
qed

text \<open>
  C8. Whenever \<open>extra_state_attributes\<close> returns a dictionary, then for every \<open>i\<close> from 1
  to the length of the selected list the attribute \<^verbatim>\<open>warning_i\<close> refers to a dictionary
  with exactly the items of the \<open>i\<close>-th warning of the list. The two assignments to the
  start and end items of the copy write back the values just read from that warning:
  the loop body equals the body that only copies. It returns a dictionary when every
  warning of the list has the ten API keys.
\<close>

theorem extra_state_attributes_whole_warning:
  assumes "allocated (dicts w) (searched_warnings im self w)"
  shows "(list_all (\<lambda>a. has_fields im (cells (dicts w) a)) (searched_warnings im self w) \<longrightarrow>
            (\<exists>d. fst (extra_state_attributes im self w) = Inr d)) \<and>
         (\<forall>d. fst (extra_state_attributes im self w) = Inr d \<longrightarrow>
            (\<forall>i. 1 \<le> i \<and> i \<le> length (searched_warnings im self w) \<longrightarrow>
               (\<exists>c. map_of d (warning_whole i) = Some (PRef c) \<and>
                    cells (dicts (snd (extra_state_attributes im self w))) c =
                      cells (dicts w) (searched_warnings im self w ! (i - 1))))) \<and>
         (\<forall>i a data h. loop_body im i a data h = loop_body_copy_only im i a data h)"
proof (intro conjI impI allI)
  assume "list_all (\<lambda>a. has_fields im (cells (dicts w) a)) (searched_warnings im self w)"
  with assms show "\<exists>d. fst (extra_state_attributes im self w) = Inr d"
    by (rule extra_state_attributes_total)
next
  fix d i
  assume d: "fst (extra_state_attributes im self w) = Inr d"
    and i: "1 \<le> i \<and> i \<le> length (searched_warnings im self w)"
  from d obtain h' where loop:
    "warning_loop im 1 (searched_warnings im self w) (base_data im self w) (dicts w) = (Inr d, h')"
    and w': "snd (extra_state_attributes im self w) = w\<lparr>dicts := h'\<rparr>"
    by (rule extra_state_attributes_Inr)
  from i have j: "i - 1 < length (searched_warnings im self w)" and i1: "1 + (i - 1) = i"
    by arith+
  from warning_loop_nth [OF loop assms j]
  have "map_of d (warning_whole i) = Some (PRef (next_free (dicts w) + (i - 1)))"
    and "cells h' (next_free (dicts w) + (i - 1)) =
           cells (dicts w) (searched_warnings im self w ! (i - 1))"
    unfolding i1 by blast+
  then show "\<exists>c. map_of d (warning_whole i) = Some (PRef c) \<and>
      cells (dicts (snd (extra_state_attributes im self w))) c =
        cells (dicts w) (searched_warnings im self w ! (i - 1))"
    by (simp add: w')
next
  fix i a data h
  show "loop_body im i a data h = loop_body_copy_only im i a data h"
    by (rule loop_body_copy_only_eq)
qed

theorem extra_state_attributes_whole_warning_witness:
  "allocated (dicts example_world) (searched_warnings example_imported example_current example_world) \<and>
   list_all (\<lambda>a. has_fields example_imported (cells (dicts example_world) a))
     (searched_warnings example_imported example_current example_world) \<and>
   (\<exists>d c1 c2. fst (extra_state_attributes example_imported example_current example_world) = Inr d \<and>
        map_of d ''warning_1'' = Some (PRef c1) \<and>
        cells (dicts (snd (extra_state_attributes example_imported example_current example_world))) c1
          = example_warning ''FROST'' 22 1 \<and>
        map_of d ''warning_2'' = Some (PRef c2) \<and>
        cells (dicts (snd (extra_state_attributes example_imported example_current example_world))) c2
          = example_warning ''STURM'' 52 2)"
proof -
  have sw: "searched_warnings example_imported example_current example_world = [0, 1]"
    by (simp add: searched_warnings_def example_current_def init_sensor_def SENSOR_TYPES_def
        example_world_def example_api_def example_imported_def)
  have a: "allocated (dicts example_world) (searched_warnings example_imported example_current example_world)"
    unfolding sw by (simp add: allocated_def example_world_def example_store_def)
  have f: "list_all (\<lambda>a. has_fields example_imported (cells (dicts example_world) a))
     (searched_warnings example_imported example_current example_world)"
    unfolding sw
    by (simp add: has_fields_def field_table_def example_imported_def example_world_def
        example_store_def example_warning_def)
  have c: "cells (dicts example_world) 0 = example_warning ''FROST'' 22 1"
    "cells (dicts example_world) (Suc 0) = example_warning ''STURM'' 52 2"
    by (simp_all add: example_world_def example_store_def)
  let ?w' = "snd (extra_state_attributes example_imported example_current example_world)"
  note T = extra_state_attributes_whole_warning [OF a]
  from T f obtain d where
    d: "fst (extra_state_attributes example_imported example_current example_world) = Inr d"
    by blast
  from T d have all: "\<forall>i. 1 \<le> i \<and> i \<le> length (searched_warnings example_imported example_current example_world) \<longrightarrow>
      (\<exists>c. map_of d (warning_whole i) = Some (PRef c) \<and>
           cells (dicts ?w') c =
             cells (dicts example_world) (searched_warnings example_imported example_current example_world ! (i - 1)))"
    by blast
  from all [rule_format, of 1] obtain c1 where
    c1: "map_of d ''warning_1'' = Some (PRef c1)"
      "cells (dicts ?w') c1 = example_warning ''FROST'' 22 1"
    unfolding sw by (auto simp: c warning_whole_def str_nat_small)
  from all [rule_format, of 2] obtain c2 where
    c2: "map_of d ''warning_2'' = Some (PRef c2)"
      "cells (dicts ?w') c2 = example_warning ''STURM'' 52 2"
    unfolding sw by (auto simp: c warning_whole_def str_nat_small)
  from a f d c1 c2 show ?thesis by blast
qed

text \<open>
  C9. For every state of the API object, \<open>available\<close> returns exactly the API's
  \<open>data_valid\<close>.
\<close>

theorem available_is_data_valid:
  "fst (available self w) = data_valid (apis w (sensor_api self))"
  by (simp add: available_def)

end
